theory Spec2Isabelle
  imports Main
begin

section \<open>Python values and built-in operations used by the handler\<close>

text \<open>
  Strings are character lists. The only strings whose letters matter to the program are
  ASCII (format names, mode names, the separator and the dot of a key), so
  \<open>str.upper\<close> and \<open>str.lower\<close> are modelled on the ASCII letters and leave every
  other character as it is.
\<close>

type_synonym bytes = "char list"

definition upper_char :: "char \<Rightarrow> char" where
  "upper_char c =
     (case map_of (zip ''abcdefghijklmnopqrstuvwxyz'' ''ABCDEFGHIJKLMNOPQRSTUVWXYZ'') c of
        Some u \<Rightarrow> u
      | None \<Rightarrow> c)"

definition lower_char :: "char \<Rightarrow> char" where
  "lower_char c =
     (case map_of (zip ''ABCDEFGHIJKLMNOPQRSTUVWXYZ'' ''abcdefghijklmnopqrstuvwxyz'') c of
        Some l \<Rightarrow> l
      | None \<Rightarrow> c)"

definition upper :: "string \<Rightarrow> string" where
  "upper s = map upper_char s"

definition lower :: "string \<Rightarrow> string" where
  "lower s = map lower_char s"

definition startswith :: "string \<Rightarrow> string \<Rightarrow> bool" where
  "startswith s p = (take (length p) s = p)"

text \<open>\<open>s.rfind(c)\<close>: the index of the last occurrence of \<open>c\<close>, or \<open>-1\<close>.\<close>

definition rfind :: "string \<Rightarrow> char \<Rightarrow> int" where
  "rfind s c =
     (if c \<in> set s
      then int (length s) - 1 - int (length (takeWhile (\<lambda>x. x \<noteq> c) (rev s)))
      else - 1)"

text \<open>\<open>s.rstrip('/')\<close>: every trailing separator is removed.\<close>

definition rstrip_slash :: "string \<Rightarrow> string" where
  "rstrip_slash s = rev (dropWhile (\<lambda>x. x = CHR ''/'') (rev s))"

subsection \<open>\<open>os.path\<close> (posixpath) functions used to build the output key\<close>

definition basename :: "string \<Rightarrow> string" where
  "basename p = (let i = rfind p CHR ''/'' + 1 in drop (nat i) p)"

definition dirname :: "string \<Rightarrow> string" where
  "dirname p =
     (let i = rfind p CHR ''/'' + 1;
          head = take (nat i) p
      in if head \<noteq> [] \<and> head \<noteq> replicate (length head) CHR ''/''
         then rstrip_slash head else head)"

text \<open>
  \<open>splitext\<close>: the extension starts at the last dot, when that dot comes after the last
  separator and is not one of the leading dots of the file name.
\<close>

definition splitext :: "string \<Rightarrow> string \<times> string" where
  "splitext p =
     (let sepIndex = rfind p CHR ''/'';
          dotIndex = rfind p CHR ''.''
      in if dotIndex > sepIndex
         then (let filenameIndex = sepIndex + 1;
                   leading = take (nat (dotIndex - filenameIndex)) (drop (nat filenameIndex) p)
               in if dropWhile (\<lambda>x. x = CHR ''.'') leading \<noteq> []
                  then (take (nat dotIndex) p, drop (nat dotIndex) p)
                  else (p, []))
         else (p, []))"

subsection \<open>Exceptions and the trigger event\<close>

datatype exn =
    ValueError string
  | KeyError string
  | IndexError
  | TypeError
  | AttributeError
  | LibraryError string

text \<open>
  The event is whatever JSON value the invoker passes. An object is the list of its
  entries, whose keys are distinct.
\<close>

datatype json =
    JNull
  | JBool bool
  | JNum int
  | JStr string
  | JArr "json list"
  | JObj "(string \<times> json) list"

text \<open>\<open>x[k]\<close> for a string key \<open>k\<close>, and \<open>x[0]\<close>.\<close>

fun getitem :: "json \<Rightarrow> string \<Rightarrow> exn + json" where
  "getitem (JObj kvs) k = (case map_of kvs k of Some v \<Rightarrow> Inr v | None \<Rightarrow> Inl (KeyError k))"
| "getitem _ k = Inl TypeError"

fun getitem0 :: "json \<Rightarrow> exn + json" where
  "getitem0 (JArr xs) = (case xs of [] \<Rightarrow> Inl IndexError | x # _ \<Rightarrow> Inr x)"
| "getitem0 (JStr s) = (case s of [] \<Rightarrow> Inl IndexError | c # _ \<Rightarrow> Inr (JStr [c]))"
| "getitem0 (JObj kvs) = Inl (KeyError ''0'')"
| "getitem0 _ = Inl TypeError"

definition exn_bind :: "exn + 'a \<Rightarrow> ('a \<Rightarrow> exn + 'b) \<Rightarrow> exn + 'b" where
  "exn_bind m f = (case m of Inl e \<Rightarrow> Inl e | Inr x \<Rightarrow> f x)"

section \<open>Configuration and module constants\<close>

record config =
  PROCESSED_PREFIX :: string
  MAX_INPUT_SIZE_BYTES :: int

definition default_config :: config where
  "default_config = \<lparr>PROCESSED_PREFIX = ''processed/'', MAX_INPUT_SIZE_BYTES = 50 * 1024 * 1024\<rparr>"

definition OUTPUT_SIZE :: "nat \<times> nat" where
  "OUTPUT_SIZE = (256, 256)"

definition DEFAULT_OUTPUT_FORMAT :: string where
  "DEFAULT_OUTPUT_FORMAT = ''JPEG''"

definition CONTENT_TYPE_MAP :: "string \<rightharpoonup> string" where
  "CONTENT_TYPE_MAP =
     map_of [(''JPEG'', ''image/jpeg''), (''JPG'', ''image/jpeg''),
             (''PNG'', ''image/png''), (''WEBP'', ''image/webp'')]"

section \<open>Images and the external collaborators\<close>

text \<open>
  An image as the handler sees it: the attributes it reads (\<open>mode\<close>, \<open>format\<close>, \<open>size\<close>,
  whether \<open>info\<close> has a \<open>transparency\<close> entry) and the pixel data, which the handler
  never inspects and only hands to the imaging library.
\<close>

record 'p image =
  mode :: string
  format :: "string option"
  size_im :: "nat \<times> nat"
  info_transparency :: bool
  pixels :: 'p

text \<open>
  What \<open>get_object\<close> returns: the entries of the response the handler reads.
  \<open>Body\<close> is the outcome of \<open>response['Body'].read()\<close>, which streams from the store
  and can fail; the other three are read with \<open>response.get\<close> and may be absent.
\<close>

record s3_response =
  ContentLength :: "int option"
  Body :: "exn + bytes"
  ContentType :: "string option"
  Metadata :: "(string \<times> string) list option"

record put_request =
  put_Bucket :: json
  put_Key :: string
  put_Body :: bytes
  put_ContentType :: string
  put_Metadata :: "(string \<times> string) list"

record save_params =
  quality :: "int option"
  optimize :: "bool option"

text \<open>
  The collaborators are parameters of the handler: the store client, the imaging library
  and \<open>urllib.parse.unquote_plus\<close>. Every call that can raise returns a sum, with the
  exception on the left. \<open>im_paste\<close> returns the background it has updated in place.
\<close>

record 'p env =
  unquote_plus :: "string \<Rightarrow> string"
  s3_get_object :: "json \<Rightarrow> string \<Rightarrow> exn + s3_response"
  s3_put_object :: "put_request \<Rightarrow> exn option"
  Image_open :: "bytes \<Rightarrow> exn + 'p image"
  exif_transpose :: "'p image \<Rightarrow> exn + 'p image"
  im_convert :: "'p image \<Rightarrow> string \<Rightarrow> exn + 'p image"
  im_resize :: "'p image \<Rightarrow> nat \<times> nat \<Rightarrow> exn + 'p image"
  Image_new :: "string \<Rightarrow> nat \<times> nat \<Rightarrow> nat \<times> nat \<times> nat \<Rightarrow> exn + 'p image"
  im_split :: "'p image \<Rightarrow> exn + 'p image list"
  im_paste :: "'p image \<Rightarrow> 'p image \<Rightarrow> 'p image \<Rightarrow> exn + 'p image"
  im_save :: "'p image \<Rightarrow> string \<Rightarrow> save_params \<Rightarrow> exn + bytes"

text \<open>The calls the handler makes on the store and the codec, in order.\<close>

datatype 'p call =
    GetObject json string
  | BodyRead
  | ImageOpen bytes
  | Save "'p image" string save_params
  | PutObject put_request

text \<open>
  The body of a response is \<open>json.dumps\<close> of an f-string; the f-string is kept as its
  fragments: literal text, \<open>str\<close> of an exception, an integer.
\<close>

datatype fragment = Lit string | StrOf exn | IntOf int

record response =
  statusCode :: int
  body :: "fragment list"

text \<open>The handler either returns a response or lets an exception escape.\<close>

datatype outcome = Returned response | Raised exn

definition after :: "'c list \<Rightarrow> outcome \<times> 'c list \<Rightarrow> outcome \<times> 'c list" where
  "after cs r = (fst r, cs @ snd r)"

section \<open>The helper functions\<close>

definition safe_get_record :: "json \<Rightarrow> exn + json" where
  "safe_get_record event =
     (case exn_bind (getitem event ''Records'') getitem0 of
        Inl e \<Rightarrow> Inl (ValueError ''Invalid event structure: expected event['Records'][0]'')
      | Inr r \<Rightarrow> Inr r)"

definition determine_output_format :: "string option \<Rightarrow> 'p image \<Rightarrow> string" where
  "determine_output_format original_format img =
     (let by_mode = (if CHR ''A'' \<in> set (mode img) then ''PNG'' else DEFAULT_OUTPUT_FORMAT)
      in case original_format of
           None \<Rightarrow> by_mode
         | Some s \<Rightarrow>
             if s \<noteq> []
             then (let fmt = upper s in if CONTENT_TYPE_MAP fmt \<noteq> None then fmt else by_mode)
             else by_mode)"

definition composite_for_jpeg :: "'p env \<Rightarrow> 'p image \<Rightarrow> exn + 'p image" where
  "composite_for_jpeg env img =
     (if mode img = ''RGBA'' \<or> mode img = ''LA''
         \<or> (mode img = ''P'' \<and> info_transparency img)
      then
        exn_bind (Image_new env ''RGB'' (size_im img) (255, 255, 255)) (\<lambda>background.
        exn_bind (im_convert env img ''RGBA'') (\<lambda>source.
        exn_bind (im_convert env img ''RGBA'') (\<lambda>source2.
        exn_bind (im_split env source2) (\<lambda>bands.
          if 3 < length bands
          then im_paste env background source (bands ! 3)
          else Inl IndexError))))
      else im_convert env img ''RGB'')"

section \<open>The handler, stage by stage\<close>

text \<open>Lines 69 to 71: the record, the bucket, and the key after \<open>unquote_plus\<close>.\<close>

definition parse_event :: "'p env \<Rightarrow> json \<Rightarrow> exn + (json \<times> string)" where
  "parse_event env event =
     exn_bind (safe_get_record event) (\<lambda>record.
     exn_bind (getitem record ''s3'') (\<lambda>s3.
     exn_bind (getitem s3 ''bucket'') (\<lambda>b.
     exn_bind (getitem b ''name'') (\<lambda>bucket.
     exn_bind (getitem record ''s3'') (\<lambda>s3'.
     exn_bind (getitem s3' ''object'') (\<lambda>obj.
     exn_bind (getitem obj ''key'') (\<lambda>k.
       case k of
         JStr s \<Rightarrow> Inr (bucket, unquote_plus env s)
       | _ \<Rightarrow> Inl AttributeError)))))))"

text \<open>Lines 145 to 151: the output key.\<close>

definition map_key :: "string \<Rightarrow> string \<Rightarrow> string \<Rightarrow> string" where
  "map_key key processed_prefix output_format =
     (let filename = basename key;
          name_root = fst (splitext filename);
          ext = lower output_format;
          key_dir = dirname key;
          processed_subpath =
            (if key_dir \<noteq> [] then key_dir @ ''/'' @ name_root @ ''.'' @ ext
             else name_root @ ''.'' @ ext)
      in rstrip_slash processed_prefix @ ''/'' @ processed_subpath)"

text \<open>Line 153: the content type of the output.\<close>

definition content_type_of :: "string \<Rightarrow> string option \<Rightarrow> string" where
  "content_type_of output_format input_content_type =
     (case CONTENT_TYPE_MAP output_format of
        Some t \<Rightarrow> t
      | None \<Rightarrow>
          (case input_content_type of
             Some t \<Rightarrow> if t \<noteq> [] then t else ''application/octet-stream''
           | None \<Rightarrow> ''application/octet-stream''))"

text \<open>Lines 144 to 170: build the request, write it, report.\<close>

definition upload ::
  "config \<Rightarrow> 'p env \<Rightarrow> json \<Rightarrow> string \<Rightarrow> s3_response \<Rightarrow> string \<Rightarrow> bytes
     \<Rightarrow> outcome \<times> 'p call list" where
  "upload cfg env bucket key resp output_format data =
     (let output_key = map_key key (PROCESSED_PREFIX cfg) output_format;
          content_type = content_type_of output_format (ContentType resp);
          original_metadata = (case Metadata resp of Some m \<Rightarrow> m | None \<Rightarrow> []);
          req = \<lparr>put_Bucket = bucket, put_Key = output_key, put_Body = data,
                 put_ContentType = content_type, put_Metadata = original_metadata\<rparr>
      in case s3_put_object env req of
           Some e \<Rightarrow>
             (Returned \<lparr>statusCode = 500,
                        body = [Lit ''Failed to write processed image: '', StrOf e]\<rparr>,
              [PutObject req])
         | None \<Rightarrow>
             (Returned \<lparr>statusCode = 200,
                        body = [Lit ''Processed '', Lit key, Lit '' and saved to '',
                                Lit output_key]\<rparr>,
              [PutObject req]))"

text \<open>Lines 121 to 142: the format-specific conversion and the encoder call.\<close>

definition params_of :: "string \<Rightarrow> save_params" where
  "params_of output_format =
     (let p0 = \<lparr>quality = None, optimize = None\<rparr>;
          p1 = (if output_format = ''JPEG'' \<or> output_format = ''JPG''
                then p0\<lparr>quality := Some 85, optimize := Some True\<rparr> else p0)
      in if output_format = ''PNG'' then p1\<lparr>optimize := Some True\<rparr> else p1)"

definition encode ::
  "config \<Rightarrow> 'p env \<Rightarrow> json \<Rightarrow> string \<Rightarrow> s3_response \<Rightarrow> string \<Rightarrow> 'p image
     \<Rightarrow> outcome \<times> 'p call list" where
  "encode cfg env bucket key resp output_format img =
     (case (if output_format = ''JPEG'' \<or> output_format = ''JPG''
            then composite_for_jpeg env img else Inr img) of
        Inl e \<Rightarrow> (Raised e, [])
      | Inr image_to_save \<Rightarrow>
          (let ps = params_of output_format in
           case im_save env image_to_save output_format ps of
             Inl e \<Rightarrow>
               (Returned \<lparr>statusCode = 500,
                          body = [Lit ''Failed to encode image: '', StrOf e]\<rparr>,
                [Save image_to_save output_format ps])
           | Inr data \<Rightarrow>
               after [Save image_to_save output_format ps]
                 (upload cfg env bucket key resp output_format data)))"

text \<open>Lines 113 to 116: orientation, colour mode, resize.\<close>

definition normalize_and_resize :: "'p env \<Rightarrow> 'p image \<Rightarrow> exn + 'p image" where
  "normalize_and_resize env img =
     exn_bind (exif_transpose env img) (\<lambda>transposed.
     exn_bind (if CHR ''A'' \<in> set (mode transposed)
               then im_convert env transposed ''RGBA''
               else im_convert env transposed ''RGB'') (\<lambda>converted.
       im_resize env converted OUTPUT_SIZE))"

text \<open>Lines 96 to 119: read the body, decode, choose the format, normalise and resize.\<close>

definition transcode ::
  "config \<Rightarrow> 'p env \<Rightarrow> json \<Rightarrow> string \<Rightarrow> s3_response \<Rightarrow> outcome \<times> 'p call list" where
  "transcode cfg env bucket key resp =
     (case Body resp of
        Inl e \<Rightarrow> (Raised e, [BodyRead])
      | Inr data \<Rightarrow>
          (case Image_open env data of
             Inl e \<Rightarrow>
               (Returned \<lparr>statusCode = 415,
                          body = [Lit ''File is not a valid image: '', StrOf e]\<rparr>,
                [BodyRead, ImageOpen data])
           | Inr img \<Rightarrow>
               (let output_format = determine_output_format (format img) img in
                case normalize_and_resize env img of
                  Inl e \<Rightarrow>
                    (Returned \<lparr>statusCode = 500,
                               body = [Lit ''Failed to resize image: '', StrOf e]\<rparr>,
                     [BodyRead, ImageOpen data])
                | Inr resized \<Rightarrow>
                    after [BodyRead, ImageOpen data]
                      (encode cfg env bucket key resp output_format resized))))"

text \<open>
  Lines 90 to 94: the size guard. \<open>content_length and content_length > MAX\<close> holds
  only for a length that is reported, is not zero and exceeds the ceiling; the result is
  that length, or \<open>None\<close> when the guard does not fire.
\<close>

definition too_large :: "config \<Rightarrow> int option \<Rightarrow> int option" where
  "too_large cfg content_length =
     (case content_length of
        None \<Rightarrow> None
      | Some n \<Rightarrow> if n \<noteq> 0 \<and> n > MAX_INPUT_SIZE_BYTES cfg then Some n else None)"

text \<open>Lines 90 to 170: everything after a successful fetch.\<close>

definition handle_response ::
  "config \<Rightarrow> 'p env \<Rightarrow> json \<Rightarrow> string \<Rightarrow> s3_response \<Rightarrow> outcome \<times> 'p call list" where
  "handle_response cfg env bucket key resp =
     (case too_large cfg (ContentLength resp) of
        Some n \<Rightarrow>
          (Returned \<lparr>statusCode = 413,
                     body = [Lit ''Object too large ('', IntOf n, Lit '' bytes), skipping.'']\<rparr>,
           [])
      | None \<Rightarrow> transcode cfg env bucket key resp)"

definition lambda_handler :: "config \<Rightarrow> 'p env \<Rightarrow> json \<Rightarrow> outcome \<times> 'p call list" where
  "lambda_handler cfg env event =
     (case parse_event env event of
        Inl e \<Rightarrow> (Returned \<lparr>statusCode = 400, body = [Lit ''Bad event: '', StrOf e]\<rparr>, [])
      | Inr (bucket, key) \<Rightarrow>
          if startswith key (PROCESSED_PREFIX cfg)
          then (Returned \<lparr>statusCode = 200,
                           body = [Lit ''Skipping '', Lit key,
                                   Lit '' because it is under the processed prefix.'']\<rparr>, [])
          else
            (case s3_get_object env bucket key of
               Inl e \<Rightarrow>
                 (Returned \<lparr>statusCode = 500,
                            body = [Lit ''Failed to get object: '', StrOf e]\<rparr>,
                  [GetObject bucket key])
             | Inr resp \<Rightarrow>
                 after [GetObject bucket key] (handle_response cfg env bucket key resp)))"

section \<open>A symbolic imaging library and store, for running the handler\<close>

text \<open>
  Pixel data as the history of library operations that produced it. The symbolic library
  below never fails, gives a converted or new image the mode that was asked for, and
  leaves the mode alone otherwise.
\<close>

datatype pix =
    Stored bytes
  | Transposed pix
  | Converted string pix
  | Resampled "nat \<times> nat" pix
  | Solid "nat \<times> nat \<times> nat"
  | Band nat pix
  | Pasted pix pix pix

definition sym_convert :: "pix image \<Rightarrow> string \<Rightarrow> pix image" where
  "sym_convert img m = img\<lparr>mode := m, format := None, pixels := Converted m (pixels img)\<rparr>"

definition sym_new :: "string \<Rightarrow> nat \<times> nat \<Rightarrow> nat \<times> nat \<times> nat \<Rightarrow> pix image" where
  "sym_new m sz colour =
     \<lparr>mode = m, format = None, size_im = sz, info_transparency = False, pixels = Solid colour\<rparr>"

definition sym_split :: "pix image \<Rightarrow> pix image list" where
  "sym_split img =
     map (\<lambda>i. img\<lparr>mode := ''L'', format := None, pixels := Band i (pixels img)\<rparr>)
       [0 ..< length (mode img)]"

text \<open>
  The environment's \<open>unquote_plus\<close> turns every \<open>+\<close> into a space; the example keys
  have no percent escapes. Its encoder returns the format and mode names as the bytes.
\<close>

definition sym_env ::
  "(json \<Rightarrow> string \<Rightarrow> exn + s3_response) \<Rightarrow> (put_request \<Rightarrow> exn option)
     \<Rightarrow> (bytes \<Rightarrow> exn + pix image) \<Rightarrow> pix env" where
  "sym_env getter putter decoder =
     \<lparr>unquote_plus = map (\<lambda>c. if c = CHR ''+'' then CHR '' '' else c),
      s3_get_object = getter,
      s3_put_object = putter,
      Image_open = decoder,
      exif_transpose = (\<lambda>img. Inr (img\<lparr>pixels := Transposed (pixels img)\<rparr>)),
      im_convert = (\<lambda>img m. Inr (sym_convert img m)),
      im_resize = (\<lambda>img sz. Inr (img\<lparr>size_im := sz, pixels := Resampled sz (pixels img)\<rparr>)),
      Image_new = (\<lambda>m sz colour. Inr (sym_new m sz colour)),
      im_split = (\<lambda>img. Inr (sym_split img)),
      im_paste = (\<lambda>bg src mask.
         Inr (bg\<lparr>pixels := Pasted (pixels bg) (pixels src) (pixels mask)\<rparr>)),
      im_save = (\<lambda>img fmt ps. Inr (fmt @ '' '' @ mode img))\<rparr>"

text \<open>A well-formed trigger event for a bucket and a percent-encoded key.\<close>

definition s3_event :: "string \<Rightarrow> string \<Rightarrow> json" where
  "s3_event bucket key =
     JObj [(''Records'',
       JArr [JObj [(''s3'',
         JObj [(''bucket'', JObj [(''name'', JStr bucket)]),
               (''object'', JObj [(''key'', JStr key)])])]])]"

text \<open>The requests written to the store, in order.\<close>

definition put_requests :: "'p call list \<Rightarrow> put_request list" where
  "put_requests calls = concat (map (\<lambda>c. case c of PutObject r \<Rightarrow> [r] | _ \<Rightarrow> []) calls)"

text \<open>
  What the handler relies on from the imaging library: a converted or new image has the
  mode that was asked for, and pasting and resizing leave the mode as it was.
\<close>

definition keeps_modes :: "'p env \<Rightarrow> bool" where
  "keeps_modes env =
     ((\<forall>img m r. im_convert env img m = Inr r \<longrightarrow> mode r = m)
      \<and> (\<forall>m sz c r. Image_new env m sz c = Inr r \<longrightarrow> mode r = m)
      \<and> (\<forall>bg src mask r. im_paste env bg src mask = Inr r \<longrightarrow> mode r = mode bg)
      \<and> (\<forall>img sz r. im_resize env img sz = Inr r \<longrightarrow> mode r = mode img))"

subsection \<open>Example objects\<close>

text \<open>
  A palette image with a transparency entry, as a GIF decodes to, and the response of the
  store that carries it.
\<close>

definition palette_gif :: "pix image" where
  "palette_gif =
     \<lparr>mode = ''P'', format = Some ''GIF'', size_im = (64, 64), info_transparency = True,
      pixels = Stored ''gif-bytes''\<rparr>"

definition gif_response :: s3_response where
  "gif_response =
     \<lparr>ContentLength = Some 9, Body = Inr ''gif-bytes'', ContentType = Some ''image/gif'',
      Metadata = Some [(''owner'', ''khush'')]\<rparr>"

text \<open>A store that serves one response for every key, accepts every write, and a decoder
  that yields one image.\<close>

definition demo_env :: "s3_response \<Rightarrow> pix image \<Rightarrow> pix env" where
  "demo_env resp img = sym_env (\<lambda>bucket key. Inr resp) (\<lambda>req. None) (\<lambda>data. Inr img)"

text \<open>An RGBA image as a PNG decodes to, and responses that carry it with a given
  reported length.\<close>

definition rgba_png :: "pix image" where
  "rgba_png =
     \<lparr>mode = ''RGBA'', format = Some ''PNG'', size_im = (64, 64), info_transparency = False,
      pixels = Stored ''png-bytes''\<rparr>"

definition png_response :: "int option \<Rightarrow> s3_response" where
  "png_response len =
     \<lparr>ContentLength = len, Body = Inr ''png-bytes'', ContentType = None,
      Metadata = Some [(''owner'', ''khush'')]\<rparr>"

text \<open>A response whose body stream breaks while it is read.\<close>

definition broken_response :: s3_response where
  "broken_response =
     \<lparr>ContentLength = Some 9, Body = Inl (LibraryError ''IncompleteRead''),
      ContentType = Some ''image/png'', Metadata = Some []\<rparr>"

section \<open>Orientation normalization on a raster\<close>

text \<open>
  Modelled from the spec: \<open>ImageOps.exif_transpose\<close> is the imaging library's and is not
  under src/, where line 114 only calls it once. The spec's stage 2 says: apply any embedded
  orientation metadata so that the pixel buffer itself is rotated or flipped into the
  visually correct orientation, then strip the orientation tag. The raster is a list of
  rows; the tag is the EXIF orientation, 1 to 8.
\<close>

record raster =
  orientation :: "nat option"
  rows :: "nat list list"

definition apply_orientation :: "nat \<Rightarrow> nat list list \<Rightarrow> nat list list" where
  "apply_orientation tag g =
     (if tag = 2 then map rev g
      else if tag = 3 then rev (map rev g)
      else if tag = 4 then rev g
      else if tag = 5 then transpose g
      else if tag = 6 then map rev (transpose g)
      else if tag = 7 then rev (map rev (transpose g))
      else if tag = 8 then rev (transpose g)
      else g)"

definition normalize_orientation :: "raster \<Rightarrow> raster" where
  "normalize_orientation r =
     (case orientation r of
        None \<Rightarrow> r
      | Some tag \<Rightarrow> \<lparr>orientation = None, rows = apply_orientation tag (rows r)\<rparr>)"

section \<open>Output format selection\<close>

text \<open>
  Claim C1, as the code has it. A hint whose upper-case form is a key of the content-type
  table decides, and the result is that upper-case form itself: \<open>JPG\<close> stays \<open>JPG\<close>.
  When the hint is absent or not in the table, a mode with an alpha band (\<open>RGBA\<close>,
  \<open>LA\<close>) gives \<open>PNG\<close>, and an alpha-free image (mode \<open>RGB\<close>, \<open>L\<close>, or \<open>P\<close> with no
  transparency entry) gives the default \<open>JPEG\<close>. The result is always one of the four
  keys of the table. Nothing is said here of a palette image with a transparency entry.
\<close>

theorem determine_output_format_rule:
  "determine_output_format hint img \<in> {''JPEG'', ''JPG'', ''PNG'', ''WEBP''}
   \<and> (\<forall>h. hint = Some h \<and> upper h \<in> {''JPEG'', ''JPG'', ''PNG'', ''WEBP''} \<longrightarrow>
          determine_output_format hint img = upper h)
   \<and> ((\<forall>h. hint = Some h \<longrightarrow> upper h \<notin> {''JPEG'', ''JPG'', ''PNG'', ''WEBP''})
        \<and> (mode img = ''RGBA'' \<or> mode img = ''LA'') \<longrightarrow>
          determine_output_format hint img = ''PNG'')
   \<and> ((\<forall>h. hint = Some h \<longrightarrow> upper h \<notin> {''JPEG'', ''JPG'', ''PNG'', ''WEBP''})
        \<and> (mode img = ''RGB'' \<or> mode img = ''L''
            \<or> (mode img = ''P'' \<and> \<not> info_transparency img)) \<longrightarrow>
          determine_output_format hint img = ''JPEG'')"
  by (auto simp: determine_output_format_def CONTENT_TYPE_MAP_def DEFAULT_OUTPUT_FORMAT_def
        upper_def Let_def split: option.splits if_splits)

theorem determine_output_format_rule_witness:
  "determine_output_format (Some ''png'')
     \<lparr>mode = ''RGB'', format = Some ''png'', size_im = (1, 1), info_transparency = False,
      pixels = ()\<rparr> = ''PNG''
   \<and> determine_output_format (Some ''BMP'')
     \<lparr>mode = ''RGBA'', format = Some ''BMP'', size_im = (1, 1), info_transparency = False,
      pixels = ()\<rparr> = ''PNG''
   \<and> determine_output_format None
     \<lparr>mode = ''L'', format = None, size_im = (1, 1), info_transparency = False,
      pixels = ()\<rparr> = ''JPEG''"
proof -
  have u: "upper ''png'' = ''PNG''" "upper ''BMP'' = ''BMP''"
    by (simp_all add: upper_def upper_char_def)
  have a: "determine_output_format (Some ''png'')
     \<lparr>mode = ''RGB'', format = Some ''png'', size_im = (1, 1), info_transparency = False,
      pixels = ()\<rparr> = upper ''png''"
    using determine_output_format_rule[of "Some ''png''"
        "\<lparr>mode = ''RGB'', format = Some ''png'', size_im = (1, 1), info_transparency = False,
          pixels = ()\<rparr>"] u
    by simp
  have b: "determine_output_format (Some ''BMP'')
     \<lparr>mode = ''RGBA'', format = Some ''BMP'', size_im = (1, 1), info_transparency = False,
      pixels = ()\<rparr> = ''PNG''"
    using determine_output_format_rule[of "Some ''BMP''"
        "\<lparr>mode = ''RGBA'', format = Some ''BMP'', size_im = (1, 1), info_transparency = False,
          pixels = ()\<rparr>"] u
    by simp
  have c: "determine_output_format None
     \<lparr>mode = ''L'', format = None, size_im = (1, 1), info_transparency = False,
      pixels = ()\<rparr> = ''JPEG''"
    using determine_output_format_rule[of None
        "\<lparr>mode = ''L'', format = None, size_im = (1, 1), info_transparency = False,
          pixels = ()\<rparr>"]
    by simp
  from a b c u show ?thesis
    by simp
qed

text \<open>
  Claim C1 as stated fails: the hint \<open>jpg\<close> is answered with \<open>JPG\<close>, which is neither
  \<open>JPEG\<close> nor any of the three canonical names.
\<close>

theorem determine_output_format_jpg:
  "determine_output_format (Some ''jpg'')
     \<lparr>mode = ''RGB'', format = Some ''jpg'', size_im = (1, 1), info_transparency = False,
      pixels = ()\<rparr> = ''JPG''
   \<and> determine_output_format (Some ''jpg'')
     \<lparr>mode = ''RGB'', format = Some ''jpg'', size_im = (1, 1), info_transparency = False,
      pixels = ()\<rparr> \<notin> {''JPEG'', ''PNG'', ''WEBP''}"
  by (simp add: determine_output_format_def CONTENT_TYPE_MAP_def upper_def upper_char_def)

section \<open>The output key\<close>









lemmas path_defs =
  map_key_def basename_def dirname_def splitext_def rfind_def rstrip_slash_def
  lower_def lower_char_def Let_def













section \<open>The stages of the handler\<close>

lemma parse_s3_event: "parse_event env (s3_event b k) = Inr (JStr b, unquote_plus env k)"
  by (simp add: parse_event_def s3_event_def safe_get_record_def exn_bind_def)

lemma put_requests_append: "put_requests (xs @ ys) = put_requests xs @ put_requests ys"
  by (simp add: put_requests_def)

lemma upload_puts:
  "map put_Metadata (put_requests (snd (upload cfg env bucket key resp fmt data))) =
     [case Metadata resp of Some m \<Rightarrow> m | None \<Rightarrow> []]"
  by (simp add: upload_def put_requests_def Let_def split: option.splits)

lemma upload_status:
  "\<exists>r. fst (upload cfg env bucket key resp fmt data) = Returned r
     \<and> (statusCode r = 200 \<or> statusCode r = 500)"
  by (simp add: upload_def Let_def split: option.splits)

text \<open>The three ways the encoding stage ends.\<close>

lemma encode_cases:
  obtains (raised) e where "encode cfg env bucket key resp fmt img = (Raised e, [])"
  | (save_failed) im e where
      "encode cfg env bucket key resp fmt img =
         (Returned \<lparr>statusCode = 500, body = [Lit ''Failed to encode image: '', StrOf e]\<rparr>,
          [Save im fmt (params_of fmt)])"
  | (saved) im data where
      "encode cfg env bucket key resp fmt img =
         after [Save im fmt (params_of fmt)] (upload cfg env bucket key resp fmt data)"
proof (cases "if fmt = ''JPEG'' \<or> fmt = ''JPG'' then composite_for_jpeg env img else Inr img")
  case (Inl e)
  then have "encode cfg env bucket key resp fmt img = (Raised e, [])"
    by (simp add: encode_def)
  then show ?thesis by (rule raised)
next
  case prepared: (Inr im)
  show ?thesis
  proof (cases "im_save env im fmt (params_of fmt)")
    case (Inl e)
    with prepared have "encode cfg env bucket key resp fmt img =
         (Returned \<lparr>statusCode = 500, body = [Lit ''Failed to encode image: '', StrOf e]\<rparr>,
          [Save im fmt (params_of fmt)])"
      by (simp add: encode_def Let_def)
    then show ?thesis by (rule save_failed)
  next
    case (Inr data)
    with prepared have "encode cfg env bucket key resp fmt img =
         after [Save im fmt (params_of fmt)] (upload cfg env bucket key resp fmt data)"
      by (simp add: encode_def Let_def)
    then show ?thesis by (rule saved)
  qed
qed

lemma encode_status:
  assumes "fst (encode cfg env bucket key resp fmt img) = Returned r"
  shows "statusCode r = 500
     \<or> (statusCode r = 200
        \<and> map put_Metadata (put_requests (snd (encode cfg env bucket key resp fmt img))) =
            [case Metadata resp of Some m \<Rightarrow> m | None \<Rightarrow> []])"
proof (cases rule: encode_cases[of cfg env bucket key resp fmt img])
  case (raised e)
  with assms show ?thesis by simp
next
  case (save_failed im e)
  with assms show ?thesis by auto
next
  case (saved im data)
  then show ?thesis
    using assms upload_status[of cfg env bucket key resp fmt data]
      upload_puts[of cfg env bucket key resp fmt data]
    by (auto simp: after_def put_requests_def)
qed

text \<open>The four ways the stage between the fetch and the encoding ends.\<close>

lemma transcode_cases:
  obtains (read_failed) e where "transcode cfg env bucket key resp = (Raised e, [BodyRead])"
  | (not_image) data e where
      "transcode cfg env bucket key resp =
         (Returned \<lparr>statusCode = 415, body = [Lit ''File is not a valid image: '', StrOf e]\<rparr>,
          [BodyRead, ImageOpen data])"
  | (resize_failed) data e where
      "transcode cfg env bucket key resp =
         (Returned \<lparr>statusCode = 500, body = [Lit ''Failed to resize image: '', StrOf e]\<rparr>,
          [BodyRead, ImageOpen data])"
  | (resized) data fmt img where
      "transcode cfg env bucket key resp =
         after [BodyRead, ImageOpen data] (encode cfg env bucket key resp fmt img)"
proof (cases "Body resp")
  case (Inl e)
  then have "transcode cfg env bucket key resp = (Raised e, [BodyRead])"
    by (simp add: transcode_def)
  then show ?thesis by (rule read_failed)
next
  case body: (Inr data)
  show ?thesis
  proof (cases "Image_open env data")
    case (Inl e)
    with body have "transcode cfg env bucket key resp =
         (Returned \<lparr>statusCode = 415, body = [Lit ''File is not a valid image: '', StrOf e]\<rparr>,
          [BodyRead, ImageOpen data])"
      by (simp add: transcode_def)
    then show ?thesis by (rule not_image)
  next
    case opened: (Inr img)
    show ?thesis
    proof (cases "normalize_and_resize env img")
      case (Inl e)
      with body opened have "transcode cfg env bucket key resp =
         (Returned \<lparr>statusCode = 500, body = [Lit ''Failed to resize image: '', StrOf e]\<rparr>,
          [BodyRead, ImageOpen data])"
        by (simp add: transcode_def Let_def)
      then show ?thesis by (rule resize_failed)
    next
      case (Inr resized_img)
      with body opened have "transcode cfg env bucket key resp =
         after [BodyRead, ImageOpen data]
           (encode cfg env bucket key resp (determine_output_format (format img) img) resized_img)"
        by (simp add: transcode_def Let_def)
      then show ?thesis by (rule resized)
    qed
  qed
qed

lemma transcode_status:
  assumes "fst (transcode cfg env bucket key resp) = Returned r"
  shows "statusCode r = 415 \<or> statusCode r = 500
     \<or> (statusCode r = 200
        \<and> map put_Metadata (put_requests (snd (transcode cfg env bucket key resp))) =
            [case Metadata resp of Some m \<Rightarrow> m | None \<Rightarrow> []])"
proof (cases rule: transcode_cases[of cfg env bucket key resp])
  case (resized data fmt img)
  with assms have "fst (encode cfg env bucket key resp fmt img) = Returned r"
    by (simp add: after_def)
  from encode_status[OF this] resized show ?thesis
    by (auto simp: after_def put_requests_def)
qed (use assms in auto)

lemma transcode_calls:
  "Body resp = Inr data \<Longrightarrow>
     take 2 (snd (transcode cfg env bucket key resp)) = [BodyRead, ImageOpen data]"
  by (simp add: transcode_def after_def Let_def split: sum.splits)

text \<open>The stages after the fetch read neither the store client nor the reported length.\<close>

lemma transcode_frame:
  "transcode cfg (env\<lparr>s3_get_object := g\<rparr>) bucket key (resp\<lparr>ContentLength := x\<rparr>) =
     transcode cfg env bucket key resp"
  by (simp add: transcode_def encode_def upload_def normalize_and_resize_def
        composite_for_jpeg_def exn_bind_def Let_def
        cong: sum.case_cong option.case_cong if_cong)

lemma parse_event_frame: "parse_event (env\<lparr>s3_get_object := g\<rparr>) event = parse_event env event"
  by (simp add: parse_event_def cong: sum.case_cong json.case_cong)

text \<open>A response that is returned carries one of the five status codes.\<close>

lemma handler_status:
  assumes "fst (lambda_handler cfg env event) = Returned r"
  shows "statusCode r \<in> {200, 400, 413, 415, 500}"
proof (cases "parse_event env event")
  case (Inl e)
  with assms show ?thesis
    by (auto simp: lambda_handler_def)
next
  case (Inr bk)
  obtain bucket key where bk: "bk = (bucket, key)"
    by (cases bk)
  show ?thesis
  proof (cases "startswith key (PROCESSED_PREFIX cfg)")
    case True
    with Inr bk assms show ?thesis
      by (auto simp: lambda_handler_def)
  next
    case False
    show ?thesis
    proof (cases "s3_get_object env bucket key")
      case (Inl e)
      with Inr bk False assms show ?thesis
        by (auto simp: lambda_handler_def)
    next
      case got: (Inr resp)
      show ?thesis
      proof (cases "too_large cfg (ContentLength resp)")
        case None
        with Inr bk False got assms have "fst (transcode cfg env bucket key resp) = Returned r"
          by (simp add: lambda_handler_def handle_response_def after_def)
        from transcode_status[OF this] show ?thesis
          by auto
      next
        case (Some n)
        with Inr bk False got assms show ?thesis
          by (auto simp add: lambda_handler_def handle_response_def after_def)
      qed
    qed
  qed
qed

subsection \<open>Modes through the pipeline, for a library that keeps its word on modes\<close>

lemma keeps_modes_sym_env: "keeps_modes (sym_env getter putter decoder)"
  by (simp add: keeps_modes_def sym_env_def sym_convert_def sym_new_def)

lemma keeps_modes_convert:
  "keeps_modes env \<Longrightarrow> im_convert env img m = Inr r \<Longrightarrow> mode r = m"
  unfolding keeps_modes_def by blast

lemma keeps_modes_new:
  "keeps_modes env \<Longrightarrow> Image_new env m sz c = Inr r \<Longrightarrow> mode r = m"
  unfolding keeps_modes_def by blast

lemma keeps_modes_paste:
  "keeps_modes env \<Longrightarrow> im_paste env bg src msk = Inr r \<Longrightarrow> mode r = mode bg"
  unfolding keeps_modes_def by blast

lemma keeps_modes_resize:
  "keeps_modes env \<Longrightarrow> im_resize env img sz = Inr r \<Longrightarrow> mode r = mode img"
  unfolding keeps_modes_def by blast

lemma composite_for_jpeg_mode:
  assumes "keeps_modes env" and "composite_for_jpeg env img = Inr r"
  shows "mode r = ''RGB''"
proof (cases "mode img = ''RGBA'' \<or> mode img = ''LA'' \<or> (mode img = ''P'' \<and> info_transparency img)")
  case True
  with assms(2) obtain background source msk where
    n: "Image_new env ''RGB'' (size_im img) (255, 255, 255) = Inr background"
    and p: "im_paste env background source msk = Inr r"
    by (auto simp: composite_for_jpeg_def exn_bind_def split: sum.splits if_splits)
  have "mode background = ''RGB''"
    using assms(1) n by (rule keeps_modes_new)
  moreover have "mode r = mode background"
    using assms(1) p by (rule keeps_modes_paste)
  ultimately show ?thesis by simp
next
  case False
  with assms(2) have "im_convert env img ''RGB'' = Inr r"
    by (auto simp: composite_for_jpeg_def)
  with assms(1) show ?thesis
    by (rule keeps_modes_convert)
qed

lemma normalize_and_resize_mode:
  assumes "keeps_modes env" and "normalize_and_resize env img = Inr r"
  shows "mode r = ''RGBA'' \<or> mode r = ''RGB''"
proof -
  from assms(2) obtain transposed converted where
    c: "im_convert env transposed ''RGBA'' = Inr converted
        \<or> im_convert env transposed ''RGB'' = Inr converted"
    and r: "im_resize env converted OUTPUT_SIZE = Inr r"
    by (auto simp: normalize_and_resize_def exn_bind_def split: sum.splits if_splits)
  from c have "mode converted = ''RGBA'' \<or> mode converted = ''RGB''"
    using keeps_modes_convert[OF assms(1)] by blast
  moreover have "mode r = mode converted"
    using assms(1) r by (rule keeps_modes_resize)
  ultimately show ?thesis by simp
qed

text \<open>Whatever reaches the encoder under the name \<open>JPEG\<close> or \<open>JPG\<close> is an RGB image.\<close>

lemma jpeg_encoder_gets_rgb:
  assumes "keeps_modes env"
    and "Save im fmt ps \<in> set (snd (encode cfg env bucket key resp fmt' img))"
    and "fmt = ''JPEG'' \<or> fmt = ''JPG''"
  shows "mode im = ''RGB''"
proof -
  have puts: "\<And>data. Save im fmt ps \<notin> set (snd (upload cfg env bucket key resp fmt' data))"
    by (simp add: upload_def Let_def split: option.splits)
  from assms(2) puts have "fmt' = fmt \<and> (if fmt' = ''JPEG'' \<or> fmt' = ''JPG''
      then composite_for_jpeg env img else Inr img) = Inr im"
    by (auto simp: encode_def after_def Let_def split: sum.splits)
  with assms(3) have "composite_for_jpeg env img = Inr im"
    by auto
  with assms(1) show ?thesis
    by (rule composite_for_jpeg_mode)
qed

section \<open>The handler\<close>

lemmas handler_defs =
  lambda_handler_def handle_response_def too_large_def transcode_def encode_def upload_def
  normalize_and_resize_def composite_for_jpeg_def determine_output_format_def params_of_def
  content_type_of_def exn_bind_def after_def startswith_def
  CONTENT_TYPE_MAP_def DEFAULT_OUTPUT_FORMAT_def OUTPUT_SIZE_def default_config_def
  upper_def upper_char_def

lemmas demo_defs =
  demo_env_def sym_env_def sym_convert_def sym_new_def sym_split_def
  palette_gif_def gif_response_def rgba_png_def png_response_def broken_response_def

text \<open>
  Claim C4. When the decoded key starts with the processed prefix, the handler returns
  status 200 with the skip message and has called neither the store nor the codec.
\<close>

theorem skip_processed:
  assumes "parse_event env event = Inr (bucket, key)"
    and "startswith key (PROCESSED_PREFIX cfg)"
  shows "lambda_handler cfg env event =
    (Returned \<lparr>statusCode = 200,
               body = [Lit ''Skipping '', Lit key,
                       Lit '' because it is under the processed prefix.'']\<rparr>, [])"
  using assms by (simp add: lambda_handler_def)

theorem skip_processed_witness:
  "parse_event (demo_env (png_response (Some 9)) rgba_png)
       (s3_event ''bkt'' ''processed/photos/in.png'') = Inr (JStr ''bkt'', ''processed/photos/in.png'')
   \<and> startswith ''processed/photos/in.png'' (PROCESSED_PREFIX default_config)
   \<and> lambda_handler default_config (demo_env (png_response (Some 9)) rgba_png)
       (s3_event ''bkt'' ''processed/photos/in.png'') =
      (Returned \<lparr>statusCode = 200,
               body = [Lit ''Skipping '', Lit ''processed/photos/in.png'',
                       Lit '' because it is under the processed prefix.'']\<rparr>, [])"
proof -
  have p: "parse_event (demo_env (png_response (Some 9)) rgba_png)
       (s3_event ''bkt'' ''processed/photos/in.png'') = Inr (JStr ''bkt'', ''processed/photos/in.png'')"
    by (simp add: parse_s3_event demo_env_def sym_env_def)
  have s: "startswith ''processed/photos/in.png'' (PROCESSED_PREFIX default_config)"
    by (simp add: startswith_def default_config_def)
  from skip_processed[OF p s] p s show ?thesis
    by simp
qed

text \<open>
  Claim C5, for a byte ceiling that is not negative. After a successful fetch of a key
  outside the processed prefix: a reported length that exceeds the ceiling gives status
  413, and the fetch is the only call made (no body read, no decode, no write); an
  unreported length passes the guard and the handler goes on with the stages that follow
  it, where the decoder is called as soon as the body has been read.
\<close>

theorem size_ceiling:
  assumes "parse_event env event = Inr (bucket, key)"
    and "\<not> startswith key (PROCESSED_PREFIX cfg)"
    and "s3_get_object env bucket key = Inr resp"
    and "0 \<le> MAX_INPUT_SIZE_BYTES cfg"
  shows "(\<forall>n. ContentLength resp = Some n \<and> MAX_INPUT_SIZE_BYTES cfg < n \<longrightarrow>
            lambda_handler cfg env event =
              (Returned \<lparr>statusCode = 413,
                         body = [Lit ''Object too large ('', IntOf n,
                                 Lit '' bytes), skipping.'']\<rparr>,
               [GetObject bucket key]))
       \<and> (ContentLength resp = None \<longrightarrow>
            lambda_handler cfg env event =
              after [GetObject bucket key] (transcode cfg env bucket key resp)
            \<and> (\<forall>data. Body resp = Inr data \<longrightarrow>
                 take 3 (snd (lambda_handler cfg env event)) =
                   [GetObject bucket key, BodyRead, ImageOpen data]))"
  using assms transcode_calls[of resp _ cfg env bucket key]
  by (auto simp add: lambda_handler_def handle_response_def too_large_def after_def)

theorem size_ceiling_witness:
  "lambda_handler default_config (demo_env (png_response (Some 52428801)) rgba_png)
       (s3_event ''bkt'' ''photos/in.png'') =
      (Returned \<lparr>statusCode = 413,
                 body = [Lit ''Object too large ('', IntOf 52428801,
                         Lit '' bytes), skipping.'']\<rparr>,
       [GetObject (JStr ''bkt'') ''photos/in.png''])
   \<and> take 3 (snd (lambda_handler default_config (demo_env (png_response None) rgba_png)
       (s3_event ''bkt'' ''photos/in.png''))) =
      [GetObject (JStr ''bkt'') ''photos/in.png'', BodyRead, ImageOpen ''png-bytes'']"
proof -
  let ?ev = "s3_event ''bkt'' ''photos/in.png''"
  have p: "parse_event (demo_env r rgba_png) ?ev = Inr (JStr ''bkt'', ''photos/in.png'')" for r
    by (simp add: parse_s3_event demo_env_def sym_env_def)
  have s: "\<not> startswith ''photos/in.png'' (PROCESSED_PREFIX default_config)"
    by (simp add: startswith_def default_config_def)
  have g: "s3_get_object (demo_env r rgba_png) (JStr ''bkt'') ''photos/in.png'' = Inr r" for r
    by (simp add: demo_env_def sym_env_def)
  have c: "0 \<le> MAX_INPUT_SIZE_BYTES default_config"
    by (simp add: default_config_def)
  have big: "ContentLength (png_response (Some 52428801)) = Some 52428801
      \<and> MAX_INPUT_SIZE_BYTES default_config < 52428801"
    by (simp add: png_response_def default_config_def)
  have none: "ContentLength (png_response None) = None"
    by (simp add: png_response_def)
  have body: "Body (png_response None) = Inr ''png-bytes''"
    by (simp add: png_response_def)
  from size_ceiling[OF p s g c, of "png_response (Some 52428801)"] big
  have a: "lambda_handler default_config (demo_env (png_response (Some 52428801)) rgba_png) ?ev =
      (Returned \<lparr>statusCode = 413,
                 body = [Lit ''Object too large ('', IntOf 52428801,
                         Lit '' bytes), skipping.'']\<rparr>,
       [GetObject (JStr ''bkt'') ''photos/in.png''])"
    by blast
  from size_ceiling[OF p s g c, of "png_response None"] none body
  have b: "take 3 (snd (lambda_handler default_config (demo_env (png_response None) rgba_png) ?ev)) =
      [GetObject (JStr ''bkt'') ''photos/in.png'', BodyRead, ImageOpen ''png-bytes'']"
    by blast
  from a b show ?thesis
    by simp
qed

text \<open>
  Claim C10. A reported length of zero does not fire the guard, whatever the ceiling: the
  handler goes on to the body read and the decode, and its result is the one it gives when
  the store reports no length at all.
\<close>

theorem zero_length_bypass:
  assumes "parse_event env event = Inr (bucket, key)"
    and "\<not> startswith key (PROCESSED_PREFIX cfg)"
    and "s3_get_object env bucket key = Inr resp"
    and "ContentLength resp = Some 0"
  shows "lambda_handler cfg env event =
           after [GetObject bucket key] (transcode cfg env bucket key resp)
       \<and> lambda_handler cfg env event =
           lambda_handler cfg
             (env\<lparr>s3_get_object := \<lambda>b k. Inr (resp\<lparr>ContentLength := None\<rparr>)\<rparr>) event"
  using assms
  by (simp add: lambda_handler_def handle_response_def too_large_def parse_event_frame
        transcode_frame)

theorem zero_length_bypass_witness:
  "lambda_handler \<lparr>PROCESSED_PREFIX = ''processed/'', MAX_INPUT_SIZE_BYTES = - 1\<rparr>
       (demo_env (png_response (Some 0)) rgba_png) (s3_event ''bkt'' ''photos/in.png'') =
     lambda_handler \<lparr>PROCESSED_PREFIX = ''processed/'', MAX_INPUT_SIZE_BYTES = - 1\<rparr>
       ((demo_env (png_response (Some 0)) rgba_png)
          \<lparr>s3_get_object := \<lambda>b k. Inr ((png_response (Some 0))\<lparr>ContentLength := None\<rparr>)\<rparr>)
       (s3_event ''bkt'' ''photos/in.png'')
   \<and> take 3 (snd (lambda_handler \<lparr>PROCESSED_PREFIX = ''processed/'', MAX_INPUT_SIZE_BYTES = - 1\<rparr>
       (demo_env (png_response (Some 0)) rgba_png) (s3_event ''bkt'' ''photos/in.png''))) =
      [GetObject (JStr ''bkt'') ''photos/in.png'', BodyRead, ImageOpen ''png-bytes'']"
proof -
  let ?ev = "s3_event ''bkt'' ''photos/in.png''"
  let ?cfg = "\<lparr>PROCESSED_PREFIX = ''processed/'', MAX_INPUT_SIZE_BYTES = - 1\<rparr>"
  let ?env = "demo_env (png_response (Some 0)) rgba_png"
  have p: "parse_event ?env ?ev = Inr (JStr ''bkt'', ''photos/in.png'')"
    by (simp add: parse_s3_event demo_env_def sym_env_def)
  have s: "\<not> startswith ''photos/in.png'' (PROCESSED_PREFIX ?cfg)"
    by (simp add: startswith_def)
  have g: "s3_get_object ?env (JStr ''bkt'') ''photos/in.png'' = Inr (png_response (Some 0))"
    by (simp add: demo_env_def sym_env_def)
  have z: "ContentLength (png_response (Some 0)) = Some 0"
    by (simp add: png_response_def)
  have body: "Body (png_response (Some 0)) = Inr ''png-bytes''"
    by (simp add: png_response_def)
  note zb = zero_length_bypass[OF p s g z]
  have calls: "take 3 (snd (lambda_handler ?cfg ?env ?ev)) =
      [GetObject (JStr ''bkt'') ''photos/in.png'', BodyRead, ImageOpen ''png-bytes'']"
    using zb transcode_calls[OF body, of ?cfg ?env "JStr ''bkt''" "''photos/in.png''"]
    by (simp add: after_def)
  have same: "lambda_handler ?cfg ?env ?ev =
     lambda_handler ?cfg
       (?env\<lparr>s3_get_object := \<lambda>b k. Inr ((png_response (Some 0))\<lparr>ContentLength := None\<rparr>)\<rparr>) ?ev"
    using zb by (rule conjunct2)
  from same calls show ?thesis
    by (rule conjI)
qed

text \<open>
  Claim C8. When the handler reports success for a key outside the processed prefix, it
  has written exactly one object, and the metadata of that write is the metadata the fetch
  returned (the empty mapping when the response has none).
\<close>

theorem metadata_passthrough:
  assumes "parse_event env event = Inr (bucket, key)"
    and "\<not> startswith key (PROCESSED_PREFIX cfg)"
    and "s3_get_object env bucket key = Inr resp"
    and "fst (lambda_handler cfg env event) = Returned r"
    and "statusCode r = 200"
  shows "map put_Metadata (put_requests (snd (lambda_handler cfg env event))) =
           [case Metadata resp of Some m \<Rightarrow> m | None \<Rightarrow> []]"
proof -
  have h: "lambda_handler cfg env event =
      after [GetObject bucket key] (handle_response cfg env bucket key resp)"
    using assms(1-3) by (simp add: lambda_handler_def)
  have "too_large cfg (ContentLength resp) = None"
    using assms(4,5) h by (auto simp: handle_response_def after_def split: option.splits)
  then have t: "lambda_handler cfg env event =
      after [GetObject bucket key] (transcode cfg env bucket key resp)"
    using h by (simp add: handle_response_def)
  then have "fst (transcode cfg env bucket key resp) = Returned r"
    using assms(4) by (simp add: after_def)
  from transcode_status[OF this] assms(5)
  have "map put_Metadata (put_requests (snd (transcode cfg env bucket key resp))) =
           [case Metadata resp of Some m \<Rightarrow> m | None \<Rightarrow> []]"
    by simp
  with t show ?thesis
    by (simp add: after_def put_requests_def)
qed

theorem metadata_passthrough_witness:
  "fst (lambda_handler default_config (demo_env (png_response (Some 9)) rgba_png)
         (s3_event ''bkt'' ''photos/in.png'')) =
     Returned \<lparr>statusCode = 200,
               body = [Lit ''Processed '', Lit ''photos/in.png'', Lit '' and saved to '',
                       Lit ''processed/photos/in.png'']\<rparr>
   \<and> map put_Metadata (put_requests (snd (lambda_handler default_config
         (demo_env (png_response (Some 9)) rgba_png) (s3_event ''bkt'' ''photos/in.png'')))) =
      [[(''owner'', ''khush'')]]"
proof -
  let ?ev = "s3_event ''bkt'' ''photos/in.png''"
  let ?env = "demo_env (png_response (Some 9)) rgba_png"
  have p: "parse_event ?env ?ev = Inr (JStr ''bkt'', ''photos/in.png'')"
    by (simp add: parse_s3_event demo_env_def sym_env_def)
  have s: "\<not> startswith ''photos/in.png'' (PROCESSED_PREFIX default_config)"
    by (simp add: startswith_def default_config_def)
  have g: "s3_get_object ?env (JStr ''bkt'') ''photos/in.png'' = Inr (png_response (Some 9))"
    by (simp add: demo_env_def sym_env_def)
  have k: "map_key ''photos/in.png'' ''processed/'' ''PNG'' = ''processed/photos/in.png''"
    by (simp add: path_defs)
  have f: "fst (lambda_handler default_config ?env ?ev) =
     Returned \<lparr>statusCode = 200,
               body = [Lit ''Processed '', Lit ''photos/in.png'', Lit '' and saved to '',
                       Lit ''processed/photos/in.png'']\<rparr>"
    by (simp add: handler_defs demo_defs s3_event_def parse_event_def safe_get_record_def k
          Let_def)
  have c: "statusCode \<lparr>statusCode = 200,
               body = [Lit ''Processed '', Lit ''photos/in.png'', Lit '' and saved to '',
                       Lit ''processed/photos/in.png'']\<rparr> = 200"
    by simp
  have m: "Metadata (png_response (Some 9)) = Some [(''owner'', ''khush'')]"
    by (simp add: png_response_def)
  from metadata_passthrough[OF p s g f c] m f show ?thesis
    by simp
qed

text \<open>
  Claim C7 at a failing input: the fetch succeeds and the body stream breaks while it is
  read. Line 96 is outside every \<open>try\<close>, so the exception leaves the handler: there is no
  response and no status code.
\<close>

theorem body_read_failure_escapes:
  "lambda_handler default_config (demo_env broken_response rgba_png)
     (s3_event ''bkt'' ''photos/in.png'') =
   (Raised (LibraryError ''IncompleteRead''),
    [GetObject (JStr ''bkt'') ''photos/in.png'', BodyRead])"
  by (simp add: handler_defs demo_defs s3_event_def parse_event_def safe_get_record_def)

section \<open>Palette images with a transparency entry\<close>

text \<open>
  Claim C2 at a failing input: a palette image whose \<open>info\<close> has a transparency entry.
  Its mode name \<open>P\<close> has no \<open>A\<close>, so line 115 converts it to RGB, not RGBA, and format
  selection (line 43, the same test) does not choose PNG for it.
\<close>

theorem palette_transparency_becomes_rgb:
  "mode palette_gif = ''P'' \<and> info_transparency palette_gif
   \<and> normalize_and_resize (demo_env gif_response palette_gif) palette_gif =
       Inr \<lparr>mode = ''RGB'', format = None, size_im = (256, 256), info_transparency = True,
            pixels = Resampled (256, 256)
                       (Converted ''RGB'' (Transposed (Stored ''gif-bytes'')))\<rparr>
   \<and> determine_output_format (format palette_gif) palette_gif = ''JPEG''"
  by (simp add: handler_defs demo_defs)

text \<open>
  Claim C3 at the same input, through the whole handler. The image reaches
  \<open>composite_for_jpeg\<close> already converted to RGB, so the encoder gets a plain conversion:
  no white background and no paste. Handed the palette image itself,
  \<open>composite_for_jpeg\<close> does paste it on white.
\<close>

theorem palette_transparency_not_composited:
  "lambda_handler default_config (demo_env gif_response palette_gif)
     (s3_event ''bkt'' ''photos/in.gif'') =
   (Returned \<lparr>statusCode = 200,
              body = [Lit ''Processed '', Lit ''photos/in.gif'', Lit '' and saved to '',
                      Lit ''processed/photos/in.jpeg'']\<rparr>,
    [GetObject (JStr ''bkt'') ''photos/in.gif'', BodyRead, ImageOpen ''gif-bytes'',
     Save \<lparr>mode = ''RGB'', format = None, size_im = (256, 256), info_transparency = True,
           pixels = Converted ''RGB'' (Resampled (256, 256)
                      (Converted ''RGB'' (Transposed (Stored ''gif-bytes''))))\<rparr>
       ''JPEG'' \<lparr>quality = Some 85, optimize = Some True\<rparr>,
     PutObject \<lparr>put_Bucket = JStr ''bkt'', put_Key = ''processed/photos/in.jpeg'',
                put_Body = ''JPEG RGB'', put_ContentType = ''image/jpeg'',
                put_Metadata = [(''owner'', ''khush'')]\<rparr>])
   \<and> composite_for_jpeg (demo_env gif_response palette_gif) palette_gif =
       Inr \<lparr>mode = ''RGB'', format = None, size_im = (64, 64), info_transparency = False,
            pixels = Pasted (Solid (255, 255, 255))
                       (Converted ''RGBA'' (Stored ''gif-bytes''))
                       (Band 3 (Converted ''RGBA'' (Stored ''gif-bytes'')))\<rparr>"
proof -
  have k: "map_key ''photos/in.gif'' ''processed/'' ''JPEG'' = ''processed/photos/in.jpeg''"
    by (simp add: path_defs)
  have "composite_for_jpeg (demo_env gif_response palette_gif) palette_gif =
       Inr \<lparr>mode = ''RGB'', format = None, size_im = (64, 64), info_transparency = False,
            pixels = Pasted (Solid (255, 255, 255))
                       (Converted ''RGBA'' (Stored ''gif-bytes''))
                       (Band 3 (Converted ''RGBA'' (Stored ''gif-bytes'')))\<rparr>"
    by (simp add: composite_for_jpeg_def exn_bind_def demo_defs)
  moreover have "lambda_handler default_config (demo_env gif_response palette_gif)
     (s3_event ''bkt'' ''photos/in.gif'') =
   (Returned \<lparr>statusCode = 200,
              body = [Lit ''Processed '', Lit ''photos/in.gif'', Lit '' and saved to '',
                      Lit ''processed/photos/in.jpeg'']\<rparr>,
    [GetObject (JStr ''bkt'') ''photos/in.gif'', BodyRead, ImageOpen ''gif-bytes'',
     Save \<lparr>mode = ''RGB'', format = None, size_im = (256, 256), info_transparency = True,
           pixels = Converted ''RGB'' (Resampled (256, 256)
                      (Converted ''RGB'' (Transposed (Stored ''gif-bytes''))))\<rparr>
       ''JPEG'' \<lparr>quality = Some 85, optimize = Some True\<rparr>,
     PutObject \<lparr>put_Bucket = JStr ''bkt'', put_Key = ''processed/photos/in.jpeg'',
                put_Body = ''JPEG RGB'', put_ContentType = ''image/jpeg'',
                put_Metadata = [(''owner'', ''khush'')]\<rparr>])"
    by (simp add: handler_defs demo_defs s3_event_def parse_event_def safe_get_record_def k
          Let_def)
  ultimately show ?thesis
    by simp
qed

section \<open>Orientation normalization is idempotent\<close>

text \<open>
  Claim C9, on the raster model of the spec's stage 2. The first application strips the
  tag, so the second finds nothing to apply: the pixel rows and the tag after two
  applications are those after one.
\<close>

theorem normalize_orientation_idempotent:
  "normalize_orientation (normalize_orientation r) = normalize_orientation r
   \<and> rows (normalize_orientation (normalize_orientation r)) = rows (normalize_orientation r)
   \<and> orientation (normalize_orientation r) = None"
  by (simp add: normalize_orientation_def split: option.splits)

end
